theory Spec2Isabelle
  imports Complex_Main "HOL-Library.AList"
begin

section \<open>Data model of the portfolio (class Portfolio of main.py)\<close>

text \<open>
  Numbers. Share counts are Python integers (\<open>int\<close>). Prices, totals and the cash
  balance are modelled as exact rationals: the arithmetic of \<open>buy_stock\<close> and
  \<open>sell_stock\<close> (one product, one sum or difference, one comparison) is written as
  the source writes it, without the rounding of binary floating point.

  Time. \<open>datetime.now()\<close> is an input of every operation that reads the clock. A
  \<open>datetime\<close> is a count of microseconds on the naive local time line.

  Dictionaries with a fixed set of keys (orders, transactions) are records, with the
  string-valued entries kept as strings, as the source compares them. The holdings
  dictionary is an association list with distinct keys, in insertion order.
\<close>

type_synonym datetime = int

record transaction =
  t_type :: string
  t_symbol :: string
  t_shares :: int
  t_price :: rat
  t_total :: rat
  t_time :: datetime
  t_order_type :: string

record order =
  o_type :: string
  o_symbol :: string
  o_shares :: int
  o_price :: rat
  o_kind :: string
  o_time :: datetime
  o_filled :: int
  o_status :: string

record portfolio =
  cash :: rat
  holdings :: "(string \<times> int) list"
  transaction_history :: "transaction list"
  pending_orders :: "order list"

datatype error = KeyError string | IndexError | ValueError string | TypeError

text \<open>\<open>Portfolio.__init__\<close>.\<close>

definition Portfolio :: "rat \<Rightarrow> portfolio" where
  "Portfolio initial_cash =
     \<lparr>cash = initial_cash, holdings = [], transaction_history = [], pending_orders = []\<rparr>"

text \<open>The two failure messages contain the letter u-umlaut, code point 252.\<close>

definition msg_no_money :: string where
  "msg_no_money = ''Nicht genug Geld f'' @ [CHR 0xFC] @ ''r diesen Kauf''"

definition msg_no_shares :: string where
  "msg_no_shares = ''Nicht genug Anteile zum Verkauf''"

text \<open>\<open>Portfolio.buy_stock\<close>: returns the pair (success, message) and the new state.\<close>

definition buy_stock ::
  "datetime \<Rightarrow> string \<Rightarrow> int \<Rightarrow> rat \<Rightarrow> portfolio \<Rightarrow> (bool \<times> string) \<times> portfolio" where
  "buy_stock now symbol shares price s =
     (let total_cost = of_int shares * price in
      if total_cost > cash s then ((False, msg_no_money), s)
      else
        let s1 = s\<lparr>cash := cash s - total_cost\<rparr>;
            s2 = (case map_of (holdings s1) symbol of
                    Some k \<Rightarrow> s1\<lparr>holdings := AList.update symbol (k + shares) (holdings s1)\<rparr>
                  | None \<Rightarrow> s1\<lparr>holdings := AList.update symbol shares (holdings s1)\<rparr>);
            s3 = s2\<lparr>transaction_history := transaction_history s2 @
                    [\<lparr>t_type = ''buy'', t_symbol = symbol, t_shares = shares,
                      t_price = price, t_total = total_cost, t_time = now,
                      t_order_type = ''market''\<rparr>]\<rparr>
        in ((True, ''Kauf erfolgreich''), s3))"

text \<open>\<open>Portfolio.sell_stock\<close>.\<close>

definition sell_stock ::
  "datetime \<Rightarrow> string \<Rightarrow> int \<Rightarrow> rat \<Rightarrow> portfolio \<Rightarrow> (bool \<times> string) \<times> portfolio" where
  "sell_stock now symbol shares price s =
     (case map_of (holdings s) symbol of
        None \<Rightarrow> ((False, msg_no_shares), s)
      | Some k \<Rightarrow>
          if k < shares then ((False, msg_no_shares), s)
          else
            let total_value = of_int shares * price;
                s1 = s\<lparr>cash := cash s + total_value\<rparr>;
                s2 = s1\<lparr>holdings := AList.update symbol (k - shares) (holdings s1)\<rparr>;
                s3 = (if map_of (holdings s2) symbol = Some 0
                      then s2\<lparr>holdings := AList.delete symbol (holdings s2)\<rparr> else s2);
                s4 = s3\<lparr>transaction_history := transaction_history s3 @
                        [\<lparr>t_type = ''sell'', t_symbol = symbol, t_shares = shares,
                          t_price = price, t_total = total_value, t_time = now,
                          t_order_type = ''market''\<rparr>]\<rparr>
            in ((True, ''Verkauf erfolgreich''), s4))"

text \<open>
  \<open>Portfolio.place_order\<close>: builds the order dictionary, appends it to the queue and
  returns it. The default \<open>order_kind='market'\<close> is an explicit argument here.
\<close>

definition place_order ::
  "datetime \<Rightarrow> string \<Rightarrow> string \<Rightarrow> int \<Rightarrow> rat \<Rightarrow> string \<Rightarrow> portfolio \<Rightarrow> order \<times> portfolio" where
  "place_order now order_type symbol shares price order_kind s =
     (let ord = \<lparr>o_type = order_type, o_symbol = symbol, o_shares = shares,
                 o_price = price, o_kind = order_kind, o_time = now, o_filled = 0,
                 o_status = ''pending''\<rparr>
      in (ord, s\<lparr>pending_orders := pending_orders s @ [ord]\<rparr>))"

text \<open>\<open>Portfolio.execute_market_order\<close>.\<close>

definition execute_market_order ::
  "datetime \<Rightarrow> order \<Rightarrow> portfolio \<Rightarrow> (bool \<times> string) \<times> portfolio" where
  "execute_market_order now ord s =
     (let symbol = o_symbol ord; shares = o_shares ord; price = o_price ord in
      if o_type ord = ''buy'' then buy_stock now symbol shares price s
      else sell_stock now symbol shares price s)"

text \<open>
  \<open>order['status'] = 'filled'\<close>: the order dictionaries of the copied list are the
  objects of the queue itself, so the assignment is a write to the queue at the
  position of the order.
\<close>

definition set_status :: "nat \<Rightarrow> string \<Rightarrow> portfolio \<Rightarrow> portfolio" where
  "set_status i st s =
     s\<lparr>pending_orders := (pending_orders s)[i := (pending_orders s ! i)\<lparr>o_status := st\<rparr>]\<rparr>"

text \<open>
  The body of the loop of \<open>Portfolio.check_limit_orders\<close> for the order at position
  \<open>i\<close>. \<open>stock_prices[order['symbol']]\<close> raises KeyError on a missing symbol (the
  error value does not carry the state the orders before it have left). The result
  of \<open>execute_market_order\<close> is dropped, as in the source.
\<close>

definition check_order ::
  "(string \<rightharpoonup> rat) \<Rightarrow> datetime \<Rightarrow> nat \<Rightarrow> order \<Rightarrow> portfolio \<Rightarrow> error + portfolio" where
  "check_order stock_prices now i ord s =
     (if o_kind ord = ''limit'' \<and> o_status ord = ''pending'' then
        (case stock_prices (o_symbol ord) of
           None \<Rightarrow> Inl (KeyError (o_symbol ord))
         | Some current_price \<Rightarrow>
             if o_type ord = ''buy'' \<and> current_price \<le> o_price ord then
               Inr (set_status i ''filled'' (snd (execute_market_order now ord s)))
             else if o_type ord = ''sell'' \<and> current_price \<ge> o_price ord then
               Inr (set_status i ''filled'' (snd (execute_market_order now ord s)))
             else Inr s)
      else Inr s)"

text \<open>
  \<open>for order in self.pending_orders[:]\<close>: the loop runs over the copy taken at its
  start; \<open>now i\<close> is the clock reading of the trade of the order at position \<open>i\<close>.
\<close>

fun check_loop ::
  "(string \<rightharpoonup> rat) \<Rightarrow> (nat \<Rightarrow> datetime) \<Rightarrow> nat \<Rightarrow> order list \<Rightarrow> portfolio \<Rightarrow> error + portfolio" where
  "check_loop stock_prices now i [] s = Inr s"
| "check_loop stock_prices now i (ord # rest) s =
     (case check_order stock_prices (now i) i ord s of
        Inl e \<Rightarrow> Inl e
      | Inr s' \<Rightarrow> check_loop stock_prices now (Suc i) rest s')"

definition check_limit_orders ::
  "(string \<rightharpoonup> rat) \<Rightarrow> (nat \<Rightarrow> datetime) \<Rightarrow> portfolio \<Rightarrow> error + portfolio" where
  "check_limit_orders stock_prices now s = check_loop stock_prices now 0 (pending_orders s) s"

text \<open>
  \<open>TradingWindow.cancel_order\<close>, the part that acts on the portfolio: the selected row
  is popped from the queue when it is in range and the order is still pending.
\<close>

definition cancel_order :: "int \<Rightarrow> portfolio \<Rightarrow> portfolio" where
  "cancel_order selected_row s =
     (if 0 \<le> selected_row \<and> selected_row < int (length (pending_orders s)) then
        (if o_status (pending_orders s ! nat selected_row) = ''pending''
         then s\<lparr>pending_orders := take (nat selected_row) (pending_orders s)
                                  @ drop (Suc (nat selected_row)) (pending_orders s)\<rparr>
         else s)
      else s)"

text \<open>A clock whose \<open>i\<close>-th reading is \<open>t0 + i\<close> microseconds, for concrete runs.\<close>

definition clock_from :: "datetime \<Rightarrow> nat \<Rightarrow> datetime" where
  "clock_from t0 i = t0 + int i"

section \<open>Indicator series (Stock.update_indicators)\<close>

text \<open>
  The values of a pandas Series of floats: a finite number, an infinity or NaN.
  Finite arithmetic is exact; the special values follow IEEE 754, which is what the
  element-wise operators of pandas compute: a positive number divided by zero is
  infinite, zero divided by zero is NaN, NaN propagates and compares false. Signed
  zeros are not represented: they decide only the sign of an infinite quotient, and
  \<open>100 / (1 + rs)\<close> is zero for either sign.
\<close>

datatype fval = Fin rat | PInf | NInf | NaN

fun fneg :: "fval \<Rightarrow> fval" where
  "fneg (Fin a) = Fin (- a)"
| "fneg PInf = NInf"
| "fneg NInf = PInf"
| "fneg NaN = NaN"

fun fadd :: "fval \<Rightarrow> fval \<Rightarrow> fval" where
  "fadd (Fin a) (Fin b) = Fin (a + b)"
| "fadd NaN _ = NaN"
| "fadd _ NaN = NaN"
| "fadd PInf NInf = NaN"
| "fadd NInf PInf = NaN"
| "fadd PInf _ = PInf"
| "fadd _ PInf = PInf"
| "fadd NInf _ = NInf"
| "fadd _ NInf = NInf"

definition fsub :: "fval \<Rightarrow> fval \<Rightarrow> fval" where
  "fsub a b = fadd a (fneg b)"

fun fdiv :: "fval \<Rightarrow> fval \<Rightarrow> fval" where
  "fdiv (Fin a) (Fin b) =
     (if b \<noteq> 0 then Fin (a / b)
      else if a > 0 then PInf else if a < 0 then NInf else NaN)"
| "fdiv NaN _ = NaN"
| "fdiv _ NaN = NaN"
| "fdiv (Fin a) _ = Fin 0"
| "fdiv PInf (Fin b) = (if b \<ge> 0 then PInf else NInf)"
| "fdiv NInf (Fin b) = (if b \<ge> 0 then NInf else PInf)"
| "fdiv _ _ = NaN"

fun fgt :: "fval \<Rightarrow> fval \<Rightarrow> bool" where
  "fgt (Fin a) (Fin b) = (a > b)"
| "fgt NaN _ = False"
| "fgt _ NaN = False"
| "fgt PInf PInf = False"
| "fgt PInf _ = True"
| "fgt _ NInf = True"
| "fgt _ _ = False"

definition flt :: "fval \<Rightarrow> fval \<Rightarrow> bool" where
  "flt a b = fgt b a"

text \<open>\<open>Series.diff()\<close>: NaN first, then the difference to the previous element.\<close>

definition series_diff :: "fval list \<Rightarrow> fval list" where
  "series_diff xs = (case xs of [] \<Rightarrow> [] | _ # rest \<Rightarrow> NaN # map2 (\<lambda>prev x. fsub x prev) xs rest)"

text \<open>\<open>Series.where(cond, other)\<close>: the element where the condition holds, else \<open>other\<close>.\<close>

definition series_where :: "bool list \<Rightarrow> fval list \<Rightarrow> fval \<Rightarrow> fval list" where
  "series_where cond xs other = map2 (\<lambda>c x. if c then x else other) cond xs"

text \<open>
  \<open>Series.rolling(window=w).mean()\<close>: NaN until the window is full, then the mean of
  the last \<open>w\<close> elements (NaN when one of them is NaN).
\<close>

definition window_mean :: "fval list \<Rightarrow> fval" where
  "window_mean ws = fdiv (foldl fadd (Fin 0) ws) (Fin (of_nat (length ws)))"

definition rolling_mean :: "nat \<Rightarrow> fval list \<Rightarrow> fval list" where
  "rolling_mean w xs =
     map (\<lambda>i. if Suc i < w then NaN else window_mean (take w (drop (Suc i - w) xs)))
         [0..<length xs]"

text \<open>The two rolling averages and the RSI series of \<open>update_indicators\<close>.\<close>

definition avg_gain :: "fval list \<Rightarrow> fval list" where
  "avg_gain prices =
     (let delta = series_diff prices in
      rolling_mean 14 (series_where (map (\<lambda>d. fgt d (Fin 0)) delta) delta (Fin 0)))"

definition avg_loss :: "fval list \<Rightarrow> fval list" where
  "avg_loss prices =
     (let delta = series_diff prices in
      rolling_mean 14 (map fneg (series_where (map (\<lambda>d. flt d (Fin 0)) delta) delta (Fin 0))))"

definition rsi_series :: "fval list \<Rightarrow> fval list" where
  "rsi_series prices =
     (let gain = avg_gain prices;
          loss = avg_loss prices;
          rs = map2 fdiv gain loss
      in map (\<lambda>r. fsub (Fin 100) (fdiv (Fin 100) (fadd (Fin 1) r))) rs)"

section \<open>Stocks (class Stock) and the timer tick (TradingWindow.update_prices)\<close>

text \<open>A row \<open>[day, open, high, low, close, volume]\<close> of \<open>ohlc_data\<close>.\<close>

record bar =
  b_day :: int
  b_open :: rat
  b_high :: rat
  b_low :: rat
  b_close :: rat
  b_volume :: rat

record indicator_series =
  MA20 :: "fval list"
  MA50 :: "fval list"
  RSI :: "fval list"

record stock =
  symbol :: string
  name :: string
  price_history :: "rat list"
  volatility :: rat
  last_update :: datetime
  volume_history :: "rat list"
  ohlc_data :: "bar list"
  indicators :: indicator_series

text \<open>
  \<open>Stock.update_indicators\<close>. The closes of the bars are finite numbers; the series
  computed from them hold NaN where pandas does.
\<close>

definition update_indicators :: "stock \<Rightarrow> stock" where
  "update_indicators st =
     (let closes = map b_close (ohlc_data st) in
      if closes = [] then st
      else
        let prices = map Fin closes;
            st1 = (if length prices \<ge> 20
                   then st\<lparr>indicators := (indicators st)\<lparr>MA20 := rolling_mean 20 prices\<rparr>\<rparr>
                   else st);
            st2 = (if length prices \<ge> 50
                   then st1\<lparr>indicators := (indicators st1)\<lparr>MA50 := rolling_mean 50 prices\<rparr>\<rparr>
                   else st1);
            st3 = (if length prices \<ge> 14
                   then st2\<lparr>indicators := (indicators st2)\<lparr>RSI := rsi_series prices\<rparr>\<rparr>
                   else st2)
        in st3)"

text \<open>
  \<open>timedelta.seconds\<close>: the seconds part (0..86399) of a difference given in
  microseconds, the days split off. \<open>date.toordinal()\<close>: day 1 is 0001-01-01, so
  1970-01-01 is day 719163.
\<close>

definition timedelta_seconds :: "int \<Rightarrow> int" where
  "timedelta_seconds d = (d mod 86400000000) div 1000000"

definition toordinal :: "datetime \<Rightarrow> int" where
  "toordinal t = 719163 + t div 86400000000"

text \<open>
  \<open>Stock.update_price\<close>. Inputs beside the stock: the reading \<open>now\<close> of the clock,
  the value \<open>rnd\<close> of \<open>random.random()\<close>, and the second reading \<open>now2\<close> of the
  clock, which gives the current date. \<open>price_history[-1]\<close> raises IndexError on an
  empty list.
\<close>

definition update_price ::
  "datetime \<Rightarrow> rat \<Rightarrow> datetime \<Rightarrow> rat \<Rightarrow> stock \<Rightarrow> error + (bool \<times> stock)" where
  "update_price now rnd now2 volume_impact st =
     (if timedelta_seconds (now - last_update st) \<ge> 1 then
        (let change_percent = volatility st * (rnd - 1 / 2);
             volume_impact_factor = volume_impact * (1 / 10000);
             change_percent = change_percent + volume_impact_factor
         in if price_history st = [] then Inl IndexError
            else
              let new_price = last (price_history st) * (1 + change_percent);
                  new_price = max (1 / 100) new_price;
                  st1 = st\<lparr>price_history := price_history st @ [new_price],
                           volume_history := volume_history st @ [volume_impact],
                           last_update := now\<rparr>;
                  st2 = (if length (ohlc_data st1) > 0 then
                           (let last_day = last (ohlc_data st1);
                                current_date = toordinal now2
                            in if current_date = b_day last_day then
                                 st1\<lparr>ohlc_data := butlast (ohlc_data st1) @
                                   [last_day\<lparr>b_high := max (b_high last_day) new_price,
                                             b_low := min (b_low last_day) new_price,
                                             b_close := new_price,
                                             b_volume := b_volume last_day + volume_impact\<rparr>]\<rparr>
                               else
                                 st1\<lparr>ohlc_data := ohlc_data st1 @
                                   [\<lparr>b_day = current_date, b_open = new_price,
                                     b_high = new_price, b_low = new_price,
                                     b_close = new_price, b_volume = volume_impact\<rparr>]\<rparr>)
                         else st1)
              in Inr (True, update_indicators st2))
      else Inr (False, st))"

text \<open>\<open>Stock.get_current_price\<close>.\<close>

definition get_current_price :: "stock \<Rightarrow> rat" where
  "get_current_price st = (if price_history st \<noteq> [] then last (price_history st) else 0)"

text \<open>
  The part of \<open>TradingWindow\<close> the tick works on: the dictionary of stocks, in
  insertion order, and the portfolio.
\<close>

record window =
  stocks :: "(string \<times> stock) list"
  portfolio :: portfolio

text \<open>The symbols of the orders of the queue with status \<open>pending\<close>.\<close>

definition pending_symbols :: "portfolio \<Rightarrow> string list" where
  "pending_symbols p = map o_symbol (filter (\<lambda>ord. o_status ord = ''pending'') (pending_orders p))"

text \<open>
  The loop over \<open>self.stocks.values()\<close> of \<open>update_prices\<close>. \<open>env k\<close> gives the
  clock reading, the random number and the second clock reading of the call of
  \<open>update_price\<close> on the stock stored under key \<open>k\<close>. The redraw of the display is
  left out.
\<close>

fun advance_stocks ::
  "(string \<Rightarrow> datetime \<times> rat \<times> datetime) \<Rightarrow> portfolio \<Rightarrow> (string \<times> stock) list
     \<Rightarrow> error + (string \<times> stock) list" where
  "advance_stocks env p [] = Inr []"
| "advance_stocks env p ((k, st) # rest) =
     (if symbol st \<notin> set (pending_symbols p) then
        (case update_price (fst (env k)) (fst (snd (env k))) (snd (snd (env k))) 0 st of
           Inl e \<Rightarrow> Inl e
         | Inr (changed, st') \<Rightarrow>
             (case advance_stocks env p rest of
                Inl e \<Rightarrow> Inl e
              | Inr rest' \<Rightarrow> Inr ((k, st') # rest')))
      else
        (case advance_stocks env p rest of
           Inl e \<Rightarrow> Inl e
         | Inr rest' \<Rightarrow> Inr ((k, st) # rest')))"

text \<open>\<open>TradingWindow.update_prices\<close>, the slot of the one-second timer.\<close>

definition update_prices ::
  "(string \<Rightarrow> datetime \<times> rat \<times> datetime) \<Rightarrow> (nat \<Rightarrow> datetime) \<Rightarrow> window \<Rightarrow> error + window" where
  "update_prices env now w =
     (let stock_prices = map_of (map (\<lambda>(k, st). (k, get_current_price st)) (stocks w)) in
      case check_limit_orders stock_prices now (portfolio w) of
        Inl e \<Rightarrow> Inl e
      | Inr p \<Rightarrow>
          (case advance_stocks env p (stocks w) of
             Inl e \<Rightarrow> Inl e
           | Inr sts \<Rightarrow> Inr \<lparr>stocks = sts, portfolio = p\<rparr>))"

text \<open>The same readings for every stock, for concrete runs.\<close>

definition same_readings :: "datetime \<Rightarrow> rat \<Rightarrow> string \<Rightarrow> datetime \<times> rat \<times> datetime" where
  "same_readings t r k = (t, r, t)"

text \<open>
  The fields \<open>Stock.__init__\<close> assigns before it loads the price history (the load
  itself, a web request with a random fallback, is an input), and a bar whose four
  prices are equal; both for concrete runs.
\<close>

definition Stock_fields :: "datetime \<Rightarrow> string \<Rightarrow> string \<Rightarrow> rat \<Rightarrow> rat \<Rightarrow> stock" where
  "Stock_fields now sy nm initial_price vol =
     \<lparr>symbol = sy, name = nm, price_history = [initial_price], volatility = vol,
      last_update = now, volume_history = [0], ohlc_data = [],
      indicators = \<lparr>MA20 = [], MA50 = [], RSI = []\<rparr>\<rparr>"

definition flat_bar :: "int \<Rightarrow> rat \<Rightarrow> bar" where
  "flat_bar d c = \<lparr>b_day = d, b_open = c, b_high = c, b_low = c, b_close = c, b_volume = 0\<rparr>"

text \<open>
  A window with two stocks and one pending limit buy on the first, far below its
  price; for concrete runs.
\<close>

definition demo_window :: window where
  "demo_window =
     \<lparr>stocks = [(''AAPL'', Stock_fields 0 ''AAPL'' ''Apple Inc.'' 100 (1 / 50)),
                (''MSFT'', Stock_fields 0 ''MSFT'' ''Microsoft Corp.'' 200 (3 / 200))],
      portfolio = snd (place_order 1 ''buy'' ''AAPL'' 1 10 ''limit'' (Portfolio 1000))\<rparr>"

section \<open>Saving and loading the portfolio\<close>

text \<open>
  A JSON document, as \<open>json.load\<close> returns it: integers, floats, strings, lists and
  dictionaries (in insertion order). A file holds one document: writing a document
  with \<open>json.dump\<close> and reading the text back with \<open>json.load\<close> is taken to give the
  same document, which the json module does for documents of these five kinds.
\<close>

datatype json = JInt int | JNum rat | JStr string | JArr "json list" | JObj "(string \<times> json) list"

type_synonym files = "string \<rightharpoonup> json"

text \<open>
  \<open>{**t, 'time': t['time'].isoformat()}\<close>: the same keys in the same order, the time
  as a string. \<open>datetime.isoformat\<close> and \<open>datetime.fromisoformat\<close> are library
  functions and parameters here; \<open>fromisoformat\<close> raises ValueError (\<open>None\<close>) on a
  string it cannot read.
\<close>

definition transaction_to_json :: "(datetime \<Rightarrow> string) \<Rightarrow> transaction \<Rightarrow> json" where
  "transaction_to_json isoformat t =
     JObj [(''type'', JStr (t_type t)), (''symbol'', JStr (t_symbol t)),
           (''shares'', JInt (t_shares t)), (''price'', JNum (t_price t)),
           (''total'', JNum (t_total t)), (''time'', JStr (isoformat (t_time t))),
           (''order_type'', JStr (t_order_type t))]"

definition order_to_json :: "(datetime \<Rightarrow> string) \<Rightarrow> order \<Rightarrow> json" where
  "order_to_json isoformat ord =
     JObj [(''type'', JStr (o_type ord)), (''symbol'', JStr (o_symbol ord)),
           (''shares'', JInt (o_shares ord)), (''price'', JNum (o_price ord)),
           (''kind'', JStr (o_kind ord)), (''time'', JStr (isoformat (o_time ord))),
           (''filled'', JInt (o_filled ord)), (''status'', JStr (o_status ord))]"

text \<open>\<open>Portfolio.save_to_file\<close>.\<close>

definition save_to_file :: "(datetime \<Rightarrow> string) \<Rightarrow> string \<Rightarrow> portfolio \<Rightarrow> files \<Rightarrow> files" where
  "save_to_file isoformat filename s fs =
     (let data = JObj
            [(''cash'', JNum (cash s)),
             (''holdings'', JObj (map (\<lambda>(k, v). (k, JInt v)) (holdings s))),
             (''transaction_history'',
                JArr (map (transaction_to_json isoformat) (transaction_history s))),
             (''pending_orders'', JArr (map (order_to_json isoformat) (pending_orders s)))]
      in fs(filename \<mapsto> data))"

text \<open>
  Reading a document back. The records of the model have typed fields, so a document
  is read field by field: a missing key is KeyError, as in the source for the keys it
  reads; a value of another kind than the field's has no counterpart in the model and
  is TypeError.
\<close>

definition bind_err :: "error + 'a \<Rightarrow> ('a \<Rightarrow> error + 'b) \<Rightarrow> error + 'b" where
  "bind_err r f = (case r of Inl e \<Rightarrow> Inl e | Inr v \<Rightarrow> f v)"

fun map_err :: "('a \<Rightarrow> error + 'b) \<Rightarrow> 'a list \<Rightarrow> error + 'b list" where
  "map_err f [] = Inr []"
| "map_err f (x # xs) = bind_err (f x) (\<lambda>y. bind_err (map_err f xs) (\<lambda>ys. Inr (y # ys)))"

definition jget :: "(string \<times> json) list \<Rightarrow> string \<Rightarrow> error + json" where
  "jget kvs k = (case map_of kvs k of None \<Rightarrow> Inl (KeyError k) | Some v \<Rightarrow> Inr v)"

fun as_str :: "json \<Rightarrow> error + string" where
  "as_str (JStr x) = Inr x"
| "as_str _ = Inl TypeError"

fun as_int :: "json \<Rightarrow> error + int" where
  "as_int (JInt n) = Inr n"
| "as_int _ = Inl TypeError"

fun as_num :: "json \<Rightarrow> error + rat" where
  "as_num (JNum x) = Inr x"
| "as_num (JInt n) = Inr (of_int n)"
| "as_num _ = Inl TypeError"

fun as_arr :: "json \<Rightarrow> error + json list" where
  "as_arr (JArr xs) = Inr xs"
| "as_arr _ = Inl TypeError"

fun as_obj :: "json \<Rightarrow> error + (string \<times> json) list" where
  "as_obj (JObj kvs) = Inr kvs"
| "as_obj _ = Inl TypeError"

definition as_time :: "(string \<Rightarrow> datetime option) \<Rightarrow> json \<Rightarrow> error + datetime" where
  "as_time fromisoformat j =
     bind_err (as_str j)
       (\<lambda>x. case fromisoformat x of None \<Rightarrow> Inl (ValueError x) | Some t \<Rightarrow> Inr t)"

text \<open>\<open>{**t, 'time': datetime.fromisoformat(t['time'])}\<close>, for a transaction and an order.\<close>

definition transaction_of_json :: "(string \<Rightarrow> datetime option) \<Rightarrow> json \<Rightarrow> error + transaction" where
  "transaction_of_json fromisoformat j =
     bind_err (as_obj j) (\<lambda>t.
     bind_err (bind_err (jget t ''time'') (as_time fromisoformat)) (\<lambda>tm.
     bind_err (bind_err (jget t ''type'') as_str) (\<lambda>ty.
     bind_err (bind_err (jget t ''symbol'') as_str) (\<lambda>sy.
     bind_err (bind_err (jget t ''shares'') as_int) (\<lambda>n.
     bind_err (bind_err (jget t ''price'') as_num) (\<lambda>p.
     bind_err (bind_err (jget t ''total'') as_num) (\<lambda>tot.
     bind_err (bind_err (jget t ''order_type'') as_str) (\<lambda>ot.
       Inr \<lparr>t_type = ty, t_symbol = sy, t_shares = n, t_price = p, t_total = tot,
            t_time = tm, t_order_type = ot\<rparr>))))))))"

definition order_of_json :: "(string \<Rightarrow> datetime option) \<Rightarrow> json \<Rightarrow> error + order" where
  "order_of_json fromisoformat j =
     bind_err (as_obj j) (\<lambda>d.
     bind_err (bind_err (jget d ''time'') (as_time fromisoformat)) (\<lambda>tm.
     bind_err (bind_err (jget d ''type'') as_str) (\<lambda>ty.
     bind_err (bind_err (jget d ''symbol'') as_str) (\<lambda>sy.
     bind_err (bind_err (jget d ''shares'') as_int) (\<lambda>n.
     bind_err (bind_err (jget d ''price'') as_num) (\<lambda>p.
     bind_err (bind_err (jget d ''kind'') as_str) (\<lambda>kd.
     bind_err (bind_err (jget d ''filled'') as_int) (\<lambda>fl.
     bind_err (bind_err (jget d ''status'') as_str) (\<lambda>stt.
       Inr \<lparr>o_type = ty, o_symbol = sy, o_shares = n, o_price = p, o_kind = kd,
            o_time = tm, o_filled = fl, o_status = stt\<rparr>)))))))))"

definition holdings_of_json :: "json \<Rightarrow> error + (string \<times> int) list" where
  "holdings_of_json j =
     bind_err (as_obj j)
       (map_err (\<lambda>(k, v). bind_err (as_int v) (\<lambda>n. Inr (k, n))))"

text \<open>
  \<open>Portfolio.load_from_file\<close>: nothing happens when the file does not exist;
  \<open>data.get('pending_orders', [])\<close> reads a missing key as the empty list. The four
  attributes are assigned one after the other; a run that raises is the error alone
  here, without the attributes assigned before it.
\<close>

definition load_from_file ::
  "(string \<Rightarrow> datetime option) \<Rightarrow> string \<Rightarrow> files \<Rightarrow> portfolio \<Rightarrow> error + portfolio" where
  "load_from_file fromisoformat filename fs s =
     (case fs filename of
        None \<Rightarrow> Inr s
      | Some j \<Rightarrow>
          bind_err (as_obj j) (\<lambda>data.
          bind_err (bind_err (jget data ''cash'') as_num) (\<lambda>c.
          bind_err (bind_err (jget data ''holdings'') holdings_of_json) (\<lambda>h.
          bind_err (bind_err (bind_err (jget data ''transaction_history'') as_arr)
                      (map_err (transaction_of_json fromisoformat))) (\<lambda>ts.
          bind_err (case map_of data ''pending_orders'' of
                      None \<Rightarrow> Inr []
                    | Some v \<Rightarrow> bind_err (as_arr v) (map_err (order_of_json fromisoformat))) (\<lambda>os.
            Inr (s\<lparr>cash := c, holdings := h, transaction_history := ts,
                   pending_orders := os\<rparr>)))))))"

text \<open>
  The values of \<open>datetime.isoformat\<close> at the instants 1 and 5 microseconds after
  1970-01-01T00:00:00, and \<open>datetime.fromisoformat\<close> on these two strings; for the
  concrete run of the round trip, which stores no other instant.
\<close>

definition sample_isoformat :: "datetime \<Rightarrow> string" where
  "sample_isoformat t =
     (if t = 1 then ''1970-01-01T00:00:00.000001''
      else if t = 5 then ''1970-01-01T00:00:00.000005'' else [])"

definition sample_fromisoformat :: "string \<Rightarrow> datetime option" where
  "sample_fromisoformat x =
     (if x = ''1970-01-01T00:00:00.000001'' then Some 1
      else if x = ''1970-01-01T00:00:00.000005'' then Some 5 else None)"

text \<open>
  The portfolio states the program can reach: a fresh portfolio, changed by the
  operations of the class and by the cancel button, and saved and loaded again (a
  session loads the file an earlier session saved), with any behaviour of the two
  library functions for timestamps. A step of the limit-order loop is a rule of its
  own, so that the states of a run that stops with KeyError are covered too.
\<close>

inductive reachable :: "portfolio \<Rightarrow> bool" where
  init: "reachable (Portfolio initial_cash)"
| place: "reachable s \<Longrightarrow> reachable (snd (place_order now ty S n p k s))"
| buy: "reachable s \<Longrightarrow> reachable (snd (buy_stock now S n p s))"
| sell: "reachable s \<Longrightarrow> reachable (snd (sell_stock now S n p s))"
| execute: "reachable s \<Longrightarrow> reachable (snd (execute_market_order now ord s))"
| check: "reachable s \<Longrightarrow> check_order P now i ord s = Inr s' \<Longrightarrow> reachable s'"
| cancel: "reachable s \<Longrightarrow> reachable (cancel_order row s)"
| load: "reachable s \<Longrightarrow>
         load_from_file fromisoformat filename (save_to_file isoformat filename s fs) s0 = Inr s' \<Longrightarrow>
         reachable s'"

section \<open>Buying and selling\<close>





section \<open>Placing orders\<close>

text \<open>
  C5, as the code has it. \<open>place_order\<close> with kind \<open>market\<close> executes nothing: it
  appends the new order, with status \<open>pending\<close>, to the queue and returns it; cash,
  holdings and the transaction log stay as they were. The limit-order loop skips the
  order ever after, so its status stays \<open>pending\<close>. (The trading form sends market
  trades to \<open>buy_stock\<close> and \<open>sell_stock\<close> directly and never queues them.)
\<close>

theorem place_order_market_only_queues:
  "snd (place_order now ty S n p ''market'' s) =
     s\<lparr>pending_orders := pending_orders s @ [fst (place_order now ty S n p ''market'' s)]\<rparr>
   \<and> o_kind (fst (place_order now ty S n p ''market'' s)) = ''market''
   \<and> o_status (fst (place_order now ty S n p ''market'' s)) = ''pending''
   \<and> check_order P t i (fst (place_order now ty S n p ''market'' s)) s2 = Inr s2"
  by (simp add: place_order_def check_order_def Let_def)

theorem place_order_market_counterexample:
  "place_order 1 ''buy'' ''AAPL'' 2 10 ''market'' (Portfolio 100) =
     (\<lparr>o_type = ''buy'', o_symbol = ''AAPL'', o_shares = 2, o_price = 10,
       o_kind = ''market'', o_time = 1, o_filled = 0, o_status = ''pending''\<rparr>,
      \<lparr>cash = 100, holdings = [], transaction_history = [],
       pending_orders =
         [\<lparr>o_type = ''buy'', o_symbol = ''AAPL'', o_shares = 2, o_price = 10,
           o_kind = ''market'', o_time = 1, o_filled = 0, o_status = ''pending''\<rparr>]\<rparr>)"
  by (simp add: place_order_def Portfolio_def Let_def)

text \<open>
  C6, as the code has it. \<open>place_order\<close> validates nothing: for every share count and
  every price, positive or not, the order is appended to the queue with exactly these
  values. (Only the input widgets of the trading form keep the share count within
  1..10000 and the price within 0.01..100000.)
\<close>

theorem place_order_no_validation:
  "pending_orders (snd (place_order now ty S n p k s)) =
     pending_orders s @
       [\<lparr>o_type = ty, o_symbol = S, o_shares = n, o_price = p, o_kind = k,
         o_time = now, o_filled = 0, o_status = ''pending''\<rparr>]"
  by (simp add: place_order_def Let_def)

theorem place_order_nonpositive_counterexample:
  "pending_orders (snd (place_order 1 ''buy'' ''AAPL'' 0 (- 5) ''limit'' (Portfolio 100))) =
     [\<lparr>o_type = ''buy'', o_symbol = ''AAPL'', o_shares = 0, o_price = - 5,
       o_kind = ''limit'', o_time = 1, o_filled = 0, o_status = ''pending''\<rparr>]"
  by (simp add: place_order_def Portfolio_def Let_def)

section \<open>Limit orders\<close>





text \<open>
  C4. A triggered limit order should become \<open>filled\<close> only when its execution
  succeeds. The loop drops the result of \<open>execute_market_order\<close> and writes
  \<open>filled\<close> in either case: with cash 50, a limit buy of 10 shares at 10 is triggered
  at tick price 9, the buy fails (no trade is logged, cash and holdings stay), and the
  order is marked \<open>filled\<close> all the same.
\<close>

theorem failed_limit_order_marked_filled:
  "fst (execute_market_order 2
          \<lparr>o_type = ''buy'', o_symbol = ''AAPL'', o_shares = 10, o_price = 10,
            o_kind = ''limit'', o_time = 1, o_filled = 0, o_status = ''pending''\<rparr>
          (snd (place_order 1 ''buy'' ''AAPL'' 10 10 ''limit'' (Portfolio 50))))
     = (False, msg_no_money)
   \<and> check_limit_orders (map_of [(''AAPL'', 9)]) (clock_from 2)
       (snd (place_order 1 ''buy'' ''AAPL'' 10 10 ''limit'' (Portfolio 50)))
     = Inr \<lparr>cash = 50, holdings = [], transaction_history = [],
            pending_orders =
              [\<lparr>o_type = ''buy'', o_symbol = ''AAPL'', o_shares = 10, o_price = 10,
                o_kind = ''limit'', o_time = 1, o_filled = 0, o_status = ''filled''\<rparr>]\<rparr>"
  by (simp add: check_limit_orders_def check_order_def place_order_def Portfolio_def
        execute_market_order_def buy_stock_def set_status_def clock_from_def Let_def)

section \<open>The order type of logged transactions\<close>

lemma buy_stock_all_market:
  "\<forall>t \<in> set (transaction_history s). t_order_type t = ''market'' \<Longrightarrow>
   \<forall>t \<in> set (transaction_history (snd (buy_stock now S n p s))). t_order_type t = ''market''"
  by (simp add: buy_stock_def Let_def split: option.split)

lemma sell_stock_all_market:
  "\<forall>t \<in> set (transaction_history s). t_order_type t = ''market'' \<Longrightarrow>
   \<forall>t \<in> set (transaction_history (snd (sell_stock now S n p s))). t_order_type t = ''market''"
  by (simp add: sell_stock_def Let_def split: option.split)

lemma execute_market_order_all_market:
  assumes that: "\<forall>t \<in> set (transaction_history s). t_order_type t = ''market''"
  shows "\<forall>t \<in> set (transaction_history (snd (execute_market_order now ord s))).
      t_order_type t = ''market''"
proof (cases "o_type ord = ''buy''")
  case True
  then have "execute_market_order now ord s = buy_stock now (o_symbol ord) (o_shares ord) (o_price ord) s"
    by (simp add: execute_market_order_def)
  with that buy_stock_all_market [of s now "o_symbol ord" "o_shares ord" "o_price ord"]
  show ?thesis by simp
next
  case False
  then have "execute_market_order now ord s = sell_stock now (o_symbol ord) (o_shares ord) (o_price ord) s"
    by (simp add: execute_market_order_def)
  with that sell_stock_all_market [of s now "o_symbol ord" "o_shares ord" "o_price ord"]
  show ?thesis by simp
qed

lemma check_order_all_market:
  assumes "check_order P now i ord s = Inr s'"
    and "\<forall>t \<in> set (transaction_history s). t_order_type t = ''market''"
  shows "\<forall>t \<in> set (transaction_history s'). t_order_type t = ''market''"
proof (cases "s' = s")
  case True
  with assms(2) show ?thesis by simp
next
  case False
  with assms(1) have "s' = set_status i ''filled'' (snd (execute_market_order now ord s))"
    by (auto simp add: check_order_def split: if_splits option.splits)
  then have "transaction_history s' = transaction_history (snd (execute_market_order now ord s))"
    by (simp add: set_status_def)
  with execute_market_order_all_market [OF assms(2), of now ord] show ?thesis by simp
qed

lemma map_err_related:
  assumes "map_err f (map g xs) = Inr ys" and "\<And>x y. f (g x) = Inr y \<Longrightarrow> h y = k x"
  shows "map h ys = map k xs"
  using assms(1)
proof (induction xs arbitrary: ys)
  case Nil
  then show ?case by auto
next
  case (Cons x xs)
  from Cons.prems obtain y ys' where
    y: "f (g x) = Inr y" and ys': "map_err f (map g xs) = Inr ys'" and ys: "ys = y # ys'"
    by (auto simp add: bind_err_def split: sum.splits)
  from Cons.IH [OF ys'] assms(2) [OF y] ys show ?case by simp
qed

lemma transaction_of_json_order_type:
  "transaction_of_json fromisoformat (transaction_to_json isoformat t) = Inr t' \<Longrightarrow>
   t_order_type t' = t_order_type t"
  by (auto simp add: transaction_of_json_def transaction_to_json_def bind_err_def jget_def
        as_time_def split: option.splits)

lemma load_saved_order_types:
  assumes "load_from_file fromisoformat filename (save_to_file isoformat filename s fs) s0 = Inr s'"
  shows "map t_order_type (transaction_history s') = map t_order_type (transaction_history s)"
proof -
  from assms obtain ts where
    ts: "map_err (transaction_of_json fromisoformat)
           (map (transaction_to_json isoformat) (transaction_history s)) = Inr ts"
    and s': "transaction_history s' = ts"
    by (auto simp add: load_from_file_def save_to_file_def Let_def bind_err_def jget_def
          split: sum.splits)
  from map_err_related [OF ts, of t_order_type t_order_type] s' show ?thesis
    by (simp add: transaction_of_json_order_type)
qed

lemma check_loop_reachable:
  "check_loop P now i os s = Inr s' \<Longrightarrow> reachable s \<Longrightarrow> reachable s'"
  by (induction os arbitrary: i s) (auto split: sum.splits intro: reachable.check)

lemma check_limit_orders_reachable:
  "check_limit_orders P now s = Inr s' \<Longrightarrow> reachable s \<Longrightarrow> reachable s'"
  unfolding check_limit_orders_def by (rule check_loop_reachable)

text \<open>
  C10. Every transaction record in the log of a reachable portfolio carries order type
  \<open>market\<close>, also the records written for a triggered limit order; none carries
  \<open>limit\<close>.
\<close>

theorem transactions_all_market:
  assumes "reachable s"
  shows "\<forall>t \<in> set (transaction_history s). t_order_type t = ''market'' \<and> t_order_type t \<noteq> ''limit''"
proof -
  have "\<forall>t \<in> set (transaction_history s). t_order_type t = ''market''"
    using assms
  proof (induction rule: reachable.induct)
    case (init initial_cash)
    show ?case by (simp add: Portfolio_def)
  next
    case (place s now ty S n p k)
    then show ?case by (simp add: place_order_def Let_def)
  next
    case (buy s now S n p)
    from buy.IH show ?case by (rule buy_stock_all_market)
  next
    case (sell s now S n p)
    from sell.IH show ?case by (rule sell_stock_all_market)
  next
    case (execute s now ord)
    from execute.IH show ?case by (rule execute_market_order_all_market)
  next
    case (check s P now i ord s')
    from check.hyps(2) check.IH show ?case by (rule check_order_all_market)
  next
    case (cancel s row)
    then show ?case by (simp add: cancel_order_def)
  next
    case (load s fromisoformat filename isoformat fs s0 s')
    from load.IH have "set (map t_order_type (transaction_history s)) \<subseteq> {''market''}" by auto
    with load_saved_order_types [OF load.hyps(2)]
    have "set (map t_order_type (transaction_history s')) \<subseteq> {''market''}" by simp
    then show ?case by auto
  qed
  then show ?thesis by simp
qed

theorem transactions_all_market_witness:
  "reachable
     \<lparr>cash = 700, holdings = [(''AAPL'', 3)],
      transaction_history =
        [\<lparr>t_type = ''buy'', t_symbol = ''AAPL'', t_shares = 3, t_price = 100,
          t_total = 300, t_time = 5, t_order_type = ''market''\<rparr>],
      pending_orders =
        [\<lparr>o_type = ''buy'', o_symbol = ''AAPL'', o_shares = 3, o_price = 100,
          o_kind = ''limit'', o_time = 1, o_filled = 0, o_status = ''filled''\<rparr>]\<rparr>
   \<and> map t_order_type (transaction_history
       \<lparr>cash = 700, holdings = [(''AAPL'', 3)],
        transaction_history =
          [\<lparr>t_type = ''buy'', t_symbol = ''AAPL'', t_shares = 3, t_price = 100,
            t_total = 300, t_time = 5, t_order_type = ''market''\<rparr>],
        pending_orders =
          [\<lparr>o_type = ''buy'', o_symbol = ''AAPL'', o_shares = 3, o_price = 100,
            o_kind = ''limit'', o_time = 1, o_filled = 0, o_status = ''filled''\<rparr>]\<rparr>)
     = [''market'']"
proof -
  let ?s' = "\<lparr>cash = 700, holdings = [(''AAPL'', 3)],
      transaction_history =
        [\<lparr>t_type = ''buy'', t_symbol = ''AAPL'', t_shares = 3, t_price = 100,
          t_total = 300, t_time = 5, t_order_type = ''market''\<rparr>],
      pending_orders =
        [\<lparr>o_type = ''buy'', o_symbol = ''AAPL'', o_shares = 3, o_price = 100,
          o_kind = ''limit'', o_time = 1, o_filled = 0, o_status = ''filled''\<rparr>]\<rparr>"
  have run: "check_limit_orders (map_of [(''AAPL'', 95)]) (clock_from 5)
     (snd (place_order 1 ''buy'' ''AAPL'' 3 100 ''limit'' (Portfolio 1000))) = Inr ?s'"
    by (simp add: check_limit_orders_def check_order_def place_order_def Portfolio_def
          execute_market_order_def buy_stock_def set_status_def clock_from_def Let_def)
  have "reachable (snd (place_order 1 ''buy'' ''AAPL'' 3 100 ''limit'' (Portfolio 1000)))"
    by (intro reachable.place reachable.init)
  with run have r: "reachable ?s'" by (rule check_limit_orders_reachable)
  from transactions_all_market [OF r] r show ?thesis by simp
qed

section \<open>The range of the RSI\<close>

lemma foldl_fadd_nonneg:
  "\<forall>v \<in> set ws. \<exists>r. v = Fin r \<and> 0 \<le> r \<Longrightarrow> 0 \<le> a \<Longrightarrow>
   \<exists>r. foldl fadd (Fin a) ws = Fin r \<and> 0 \<le> r \<and> (r = 0 \<longleftrightarrow> a = 0 \<and> (\<forall>v \<in> set ws. v = Fin 0))"
proof (induction ws arbitrary: a)
  case Nil
  then show ?case by simp
next
  case (Cons v ws)
  from Cons.prems(1) obtain x where v: "v = Fin x" and x: "0 \<le> x" by auto
  from Cons.prems(1) have rest: "\<forall>v \<in> set ws. \<exists>r. v = Fin r \<and> 0 \<le> r" by simp
  from x Cons.prems(2) have "0 \<le> a + x" by simp
  from Cons.IH [OF rest this] obtain r where
    r: "foldl fadd (Fin (a + x)) ws = Fin r" "0 \<le> r"
       "r = 0 \<longleftrightarrow> a + x = 0 \<and> (\<forall>v \<in> set ws. v = Fin 0)"
    by blast
  from x Cons.prems(2) have "a + x = 0 \<longleftrightarrow> a = 0 \<and> x = 0" by auto
  with r v show ?case by auto
qed

lemma window_mean_nonneg:
  assumes "ws \<noteq> []" and "\<forall>v \<in> set ws. \<exists>r. v = Fin r \<and> 0 \<le> r"
  shows "\<exists>m. window_mean ws = Fin m \<and> 0 \<le> m \<and> (m = 0 \<longleftrightarrow> (\<forall>v \<in> set ws. v = Fin 0))"
proof -
  from foldl_fadd_nonneg [OF assms(2), of 0] obtain r where
    r: "foldl fadd (Fin 0) ws = Fin r" "0 \<le> r" "r = 0 \<longleftrightarrow> (\<forall>v \<in> set ws. v = Fin 0)"
    by auto
  from assms(1) have len: "(of_nat (length ws) :: rat) > 0" by simp
  then have "window_mean ws = Fin (r / of_nat (length ws))"
    by (simp add: window_mean_def r(1))
  moreover from r(2) len have "0 \<le> r / of_nat (length ws)" by simp
  moreover from len have "r / of_nat (length ws) = 0 \<longleftrightarrow> r = 0" by simp
  ultimately show ?thesis using r(3) by simp
qed

lemma rolling_mean_nth:
  "i < length xs \<Longrightarrow>
   rolling_mean w xs ! i =
     (if Suc i < w then NaN else window_mean (take w (drop (Suc i - w) xs)))"
  by (simp add: rolling_mean_def)

lemma rolling_mean_nonneg:
  assumes "\<forall>v \<in> set xs. \<exists>r. v = Fin r \<and> 0 \<le> r" and "0 < w" and "w \<le> Suc i" and "i < length xs"
  shows "\<exists>m. rolling_mean w xs ! i = Fin m \<and> 0 \<le> m
            \<and> (m = 0 \<longleftrightarrow> (\<forall>v \<in> set (take w (drop (Suc i - w) xs)). v = Fin 0))"
proof -
  let ?ws = "take w (drop (Suc i - w) xs)"
  from assms(2-4) have "?ws \<noteq> []" by simp
  moreover have "\<forall>v \<in> set ?ws. \<exists>r. v = Fin r \<and> 0 \<le> r"
    using assms(1) by (meson in_set_dropD in_set_takeD)
  ultimately have "\<exists>m. window_mean ?ws = Fin m \<and> 0 \<le> m \<and> (m = 0 \<longleftrightarrow> (\<forall>v \<in> set ?ws. v = Fin 0))"
    by (rule window_mean_nonneg)
  with assms(3,4) show ?thesis by (simp add: rolling_mean_nth)
qed

lemma series_where_map:
  "series_where (map c xs) xs other = map (\<lambda>x. if c x then x else other) xs"
  by (induction xs) (simp_all add: series_where_def)

lemma map2_fsub_Fin:
  "map2 (\<lambda>prev x. fsub x prev) (map Fin as) (map Fin bs) = map2 (\<lambda>prev x. Fin (x - prev)) as bs"
proof (induction as arbitrary: bs)
  case Nil
  show ?case by simp
next
  case (Cons a as)
  then show ?case by (cases bs) (simp_all add: fsub_def)
qed

lemma series_diff_Fin:
  "series_diff (map Fin cs) =
     (case cs of [] \<Rightarrow> [] | _ # rest \<Rightarrow> NaN # map2 (\<lambda>prev x. Fin (x - prev)) cs rest)"
proof (cases cs)
  case Nil
  then show ?thesis by (simp add: series_diff_def)
next
  case (Cons c rest)
  have "series_diff (map Fin (c # rest)) =
          NaN # map2 (\<lambda>prev x. fsub x prev) (map Fin (c # rest)) (map Fin rest)"
    by (simp add: series_diff_def)
  also have "\<dots> = NaN # map2 (\<lambda>prev x. Fin (x - prev)) (c # rest) rest"
    by (simp only: map2_fsub_Fin)
  finally show ?thesis using Cons by simp
qed

lemma series_diff_values:
  "\<forall>d \<in> set (series_diff (map Fin cs)). d = NaN \<or> (\<exists>x. d = Fin x)"
  by (auto simp add: series_diff_Fin split: list.split)

lemma gains_nonneg:
  "\<forall>v \<in> set (series_where (map (\<lambda>d. fgt d (Fin 0)) (series_diff (map Fin cs)))
                  (series_diff (map Fin cs)) (Fin 0)). \<exists>r. v = Fin r \<and> 0 \<le> r"
  using series_diff_values [of cs] by (auto simp add: series_where_map)

lemma losses_nonneg:
  "\<forall>v \<in> set (map fneg (series_where (map (\<lambda>d. flt d (Fin 0)) (series_diff (map Fin cs)))
                  (series_diff (map Fin cs)) (Fin 0))). \<exists>r. v = Fin r \<and> 0 \<le> r"
  using series_diff_values [of cs] by (auto simp add: series_where_map flt_def)

lemma series_diff_length: "length (series_diff xs) = length xs"
  by (simp add: series_diff_def split: list.split)

lemma avg_gain_length: "length (avg_gain xs) = length xs"
  by (simp add: avg_gain_def Let_def rolling_mean_def series_where_map series_diff_length)

lemma avg_loss_length: "length (avg_loss xs) = length xs"
  by (simp add: avg_loss_def Let_def rolling_mean_def series_where_map series_diff_length)

lemma avg_gain_nonneg:
  assumes "13 \<le> i" and "i < length cs"
  shows "\<exists>g. avg_gain (map Fin cs) ! i = Fin g \<and> 0 \<le> g"
proof -
  have "\<exists>m. rolling_mean 14 (series_where (map (\<lambda>d. fgt d (Fin 0)) (series_diff (map Fin cs)))
                  (series_diff (map Fin cs)) (Fin 0)) ! i = Fin m \<and> 0 \<le> m
            \<and> (m = 0 \<longleftrightarrow> (\<forall>v \<in> set (take 14 (drop (Suc i - 14)
                  (series_where (map (\<lambda>d. fgt d (Fin 0)) (series_diff (map Fin cs)))
                  (series_diff (map Fin cs)) (Fin 0)))). v = Fin 0))"
    using gains_nonneg assms
    by (intro rolling_mean_nonneg) (simp_all add: series_where_map series_diff_length)
  then show ?thesis by (auto simp add: avg_gain_def Let_def)
qed

lemma avg_loss_nonneg:
  assumes "13 \<le> i" and "i < length cs"
  shows "\<exists>l. avg_loss (map Fin cs) ! i = Fin l \<and> 0 \<le> l"
proof -
  have "\<exists>m. rolling_mean 14 (map fneg (series_where (map (\<lambda>d. flt d (Fin 0)) (series_diff (map Fin cs)))
                  (series_diff (map Fin cs)) (Fin 0))) ! i = Fin m \<and> 0 \<le> m
            \<and> (m = 0 \<longleftrightarrow> (\<forall>v \<in> set (take 14 (drop (Suc i - 14)
                  (map fneg (series_where (map (\<lambda>d. flt d (Fin 0)) (series_diff (map Fin cs)))
                  (series_diff (map Fin cs)) (Fin 0))))). v = Fin 0))"
    using losses_nonneg assms
    by (intro rolling_mean_nonneg) (simp_all add: series_where_map series_diff_length)
  then show ?thesis by (auto simp add: avg_loss_def Let_def)
qed

lemma rsi_series_nth:
  "i < length xs \<Longrightarrow>
   rsi_series xs ! i =
     fsub (Fin 100) (fdiv (Fin 100) (fadd (Fin 1) (fdiv (avg_gain xs ! i) (avg_loss xs ! i))))"
  by (simp add: rsi_series_def Let_def avg_gain_length avg_loss_length)

lemma rsi_value:
  assumes "0 \<le> g" and "0 \<le> l"
  shows "fsub (Fin 100) (fdiv (Fin 100) (fadd (Fin 1) (fdiv (Fin g) (Fin l)))) =
           (if l = 0 then (if g = 0 then NaN else Fin 100)
            else Fin (100 - 100 / (1 + g / l)))"
proof (cases "l = 0")
  case True
  with assms show ?thesis by (auto simp add: fsub_def)
next
  case False
  with assms have "0 \<le> g / l" by simp
  then have "1 + g / l \<noteq> 0" by linarith
  with False show ?thesis by (simp add: fsub_def)
qed

lemma rsi_bounds:
  assumes "0 \<le> g" and "0 < l"
  shows "0 \<le> 100 - 100 / (1 + g / l)" and "100 - 100 / (1 + g / l) < (100::rat)"
proof -
  from assms have q: "0 \<le> g / l" by simp
  then have pos: "0 < 1 + g / l" by linarith
  from q have "100 / (1 + g / l) \<le> 100 / 1"
    by (intro divide_left_mono) simp_all
  then show "0 \<le> 100 - 100 / (1 + g / l)" by simp
  from pos have "0 < 100 / (1 + g / l)" by simp
  then show "100 - 100 / (1 + g / l) < 100" by simp
qed

lemma rsi_series_unpopulated:
  assumes "i < 13" and "i < length xs"
  shows "rsi_series xs ! i = NaN"
proof -
  from assms have "avg_gain xs ! i = NaN"
    by (simp add: avg_gain_def Let_def rolling_mean_nth series_where_map series_diff_length)
  with assms(2) show ?thesis by (simp add: rsi_series_nth fsub_def)
qed

text \<open>
  C7, as the code has it. Once the history has 14 closes, the RSI series is aligned to
  the closes; its first 13 entries are NaN (window not full). At every later index the
  two rolling averages are finite and not negative, and
  \<^item> with a positive average loss the RSI is a number in \<open>[0, 100]\<close>;
  \<^item> with average loss 0 and a positive average gain the RSI is 100;
  \<^item> with average loss 0 and average gain 0 (a flat window) the RSI is NaN: the code
    has no clamp, and \<open>0 / 0\<close> is NaN.
\<close>

theorem rsi_range:
  assumes "14 \<le> length (ohlc_data st)" and "i < length (ohlc_data st)"
  shows "(i < 13 \<longrightarrow> RSI (indicators (update_indicators st)) ! i = NaN)
       \<and> (13 \<le> i \<longrightarrow>
           (\<exists>g l. avg_gain (map Fin (map b_close (ohlc_data st))) ! i = Fin g \<and> 0 \<le> g
                \<and> avg_loss (map Fin (map b_close (ohlc_data st))) ! i = Fin l \<and> 0 \<le> l
                \<and> (0 < l \<longrightarrow> (\<exists>r. RSI (indicators (update_indicators st)) ! i = Fin r
                                  \<and> 0 \<le> r \<and> r \<le> 100))
                \<and> (l = 0 \<and> 0 < g \<longrightarrow> RSI (indicators (update_indicators st)) ! i = Fin 100)
                \<and> (l = 0 \<and> g = 0 \<longrightarrow> RSI (indicators (update_indicators st)) ! i = NaN)))"
proof -
  let ?cs = "map b_close (ohlc_data st)"
  from assms(1) have "ohlc_data st \<noteq> []" by auto
  with assms(1) have series: "RSI (indicators (update_indicators st)) = rsi_series (map Fin ?cs)"
    by (simp add: update_indicators_def Let_def)
  from assms(2) have len: "i < length (map Fin ?cs)" by simp
  have early: "i < 13 \<longrightarrow> RSI (indicators (update_indicators st)) ! i = NaN"
    using len series by (simp add: rsi_series_unpopulated)
  have late: "\<exists>g l. avg_gain (map Fin ?cs) ! i = Fin g \<and> 0 \<le> g
                \<and> avg_loss (map Fin ?cs) ! i = Fin l \<and> 0 \<le> l
                \<and> (0 < l \<longrightarrow> (\<exists>r. RSI (indicators (update_indicators st)) ! i = Fin r
                                  \<and> 0 \<le> r \<and> r \<le> 100))
                \<and> (l = 0 \<and> 0 < g \<longrightarrow> RSI (indicators (update_indicators st)) ! i = Fin 100)
                \<and> (l = 0 \<and> g = 0 \<longrightarrow> RSI (indicators (update_indicators st)) ! i = NaN)"
    if i: "13 \<le> i"
  proof -
    from assms(2) have "i < length ?cs" by simp
    from avg_gain_nonneg [OF i this] obtain g where
      g: "avg_gain (map Fin ?cs) ! i = Fin g" "0 \<le> g" by blast
    from avg_loss_nonneg [OF i \<open>i < length ?cs\<close>] obtain l where
      l: "avg_loss (map Fin ?cs) ! i = Fin l" "0 \<le> l" by blast
    have val: "RSI (indicators (update_indicators st)) ! i =
           (if l = 0 then (if g = 0 then NaN else Fin 100) else Fin (100 - 100 / (1 + g / l)))"
      using rsi_series_nth [OF len] g l rsi_value [OF g(2) l(2)] series by simp
    have "0 < l \<longrightarrow> (\<exists>r. RSI (indicators (update_indicators st)) ! i = Fin r \<and> 0 \<le> r \<and> r \<le> 100)"
      using val rsi_bounds [OF g(2), of l] by auto
    moreover have "l = 0 \<and> 0 < g \<longrightarrow> RSI (indicators (update_indicators st)) ! i = Fin 100"
      using val by simp
    moreover have "l = 0 \<and> g = 0 \<longrightarrow> RSI (indicators (update_indicators st)) ! i = NaN"
      using val by simp
    ultimately show ?thesis using g l by blast
  qed
  from early late show ?thesis by blast
qed

theorem rsi_flat_history_counterexample:
  "avg_loss (map Fin (map b_close (replicate 14 (flat_bar 1 100)))) ! 13 = Fin 0
   \<and> RSI (indicators (update_indicators
        ((Stock_fields 0 ''AAPL'' ''Apple Inc.'' 100 (1 / 50))
           \<lparr>ohlc_data := replicate 14 (flat_bar 1 100)\<rparr>))) ! 13 = NaN"
  by code_simp

theorem rsi_range_witness:
  "RSI (indicators (update_indicators
        ((Stock_fields 0 ''AAPL'' ''Apple Inc.'' 100 (1 / 50))
           \<lparr>ohlc_data := map (flat_bar 1) [1, 2, 3, 4, 5, 6, 7, 8, 9, 10, 11, 12, 13, 12, 15]\<rparr>))) ! 13
     = Fin (1200 / 13)
   \<and> avg_loss (map Fin (map b_close (map (flat_bar 1)
        [1, 2, 3, 4, 5, 6, 7, 8, 9, 10, 11, 12, 13, 12, 15]))) ! 13 = Fin (1 / 14)"
proof -
  let ?st = "(Stock_fields 0 ''AAPL'' ''Apple Inc.'' 100 (1 / 50))
           \<lparr>ohlc_data := map (flat_bar 1) [1, 2, 3, 4, 5, 6, 7, 8, 9, 10, 11, 12, 13, 12, 15]\<rparr>"
  have n: "14 \<le> length (ohlc_data ?st)" and i: "13 < length (ohlc_data ?st)" by simp_all
  have v: "RSI (indicators (update_indicators ?st)) ! 13 = Fin (1200 / 13)" by code_simp
  have l: "avg_loss (map Fin (map b_close (map (flat_bar 1)
        [1, 2, 3, 4, 5, 6, 7, 8, 9, 10, 11, 12, 13, 12, 15]))) ! 13 = Fin (1 / 14)" by code_simp
  from rsi_range [OF n i] v l show ?thesis by simp
qed

section \<open>The timer tick\<close>

lemma advance_stocks_nth:
  assumes "advance_stocks env p sts = Inr sts'" and "i < length sts"
  shows "length sts' = length sts
       \<and> fst (sts' ! i) = fst (sts ! i)
       \<and> (symbol (snd (sts ! i)) \<in> set (pending_symbols p) \<longrightarrow> sts' ! i = sts ! i)
       \<and> (symbol (snd (sts ! i)) \<notin> set (pending_symbols p) \<longrightarrow>
            (\<exists>changed. update_price (fst (env (fst (sts ! i)))) (fst (snd (env (fst (sts ! i)))))
                          (snd (snd (env (fst (sts ! i))))) 0 (snd (sts ! i))
                        = Inr (changed, snd (sts' ! i))))"
  using assms
proof (induction sts arbitrary: sts' i)
  case Nil
  then show ?case by simp
next
  case (Cons entry rest)
  obtain k st where entry: "entry = (k, st)" by (cases entry)
  from Cons.prems(1) entry obtain st' rest' where
    out: "sts' = (k, st') # rest'" and rest: "advance_stocks env p rest = Inr rest'"
    and st': "symbol st \<in> set (pending_symbols p) \<longrightarrow> st' = st"
    and upd: "symbol st \<notin> set (pending_symbols p) \<longrightarrow>
           (\<exists>changed. update_price (fst (env k)) (fst (snd (env k))) (snd (snd (env k))) 0 st
                        = Inr (changed, st'))"
    by (auto split: if_splits sum.splits prod.splits)
  show ?case
  proof (cases i)
    case 0
    with out entry st' upd Cons.IH [OF rest] show ?thesis
      by (cases rest) (use rest in auto)
  next
    case (Suc j)
    with Cons.prems(2) have "j < length rest" by simp
    from Cons.IH [OF rest this] Suc out entry show ?thesis by simp
  qed
qed

text \<open>
  C8, as the code has it. In a tick that returns, the limit orders are processed first;
  then a stock is left as it was exactly when an order with status \<open>pending\<close> for
  \<^emph>\<open>that stock's own symbol\<close> is in the queue, and every other stock goes through
  \<open>update_price\<close> (which advances the price when a second has passed since its last
  update). A pending order on one symbol does not freeze another symbol.
\<close>

theorem tick_advances_per_symbol:
  assumes "update_prices env now w = Inr w'" and "i < length (stocks w)"
  shows "length (stocks w') = length (stocks w)
       \<and> fst (stocks w' ! i) = fst (stocks w ! i)
       \<and> (symbol (snd (stocks w ! i)) \<in> set (pending_symbols (portfolio w')) \<longrightarrow>
            stocks w' ! i = stocks w ! i)
       \<and> (symbol (snd (stocks w ! i)) \<notin> set (pending_symbols (portfolio w')) \<longrightarrow>
            (\<exists>changed. update_price (fst (env (fst (stocks w ! i))))
                          (fst (snd (env (fst (stocks w ! i)))))
                          (snd (snd (env (fst (stocks w ! i))))) 0 (snd (stocks w ! i))
                        = Inr (changed, snd (stocks w' ! i))))"
proof -
  from assms(1) obtain p sts where
    "advance_stocks env p (stocks w) = Inr sts" and "w' = \<lparr>stocks = sts, portfolio = p\<rparr>"
    by (auto simp add: update_prices_def Let_def split: sum.splits)
  with advance_stocks_nth [of env p "stocks w" sts i] assms(2) show ?thesis by simp
qed

theorem tick_other_symbol_counterexample:
  "update_prices (same_readings 2000000 (3 / 4)) (clock_from 2000000) demo_window =
     Inr \<lparr>stocks =
            [(''AAPL'', Stock_fields 0 ''AAPL'' ''Apple Inc.'' 100 (1 / 50)),
             (''MSFT'', (Stock_fields 0 ''MSFT'' ''Microsoft Corp.'' 200 (3 / 200))
                \<lparr>price_history := [200, 803 / 4], last_update := 2000000,
                  volume_history := [0, 0]\<rparr>)],
          portfolio =
            \<lparr>cash = 1000, holdings = [], transaction_history = [],
             pending_orders =
               [\<lparr>o_type = ''buy'', o_symbol = ''AAPL'', o_shares = 1, o_price = 10,
                 o_kind = ''limit'', o_time = 1, o_filled = 0, o_status = ''pending''\<rparr>]\<rparr>\<rparr>"
  by (simp add: update_prices_def demo_window_def Stock_fields_def place_order_def
        Portfolio_def check_limit_orders_def check_order_def get_current_price_def
        pending_symbols_def same_readings_def update_price_def timedelta_seconds_def
        update_indicators_def Let_def)

theorem tick_advances_per_symbol_witness:
  "update_prices (same_readings 2000000 (3 / 4)) (clock_from 2000000) demo_window =
     Inr \<lparr>stocks =
            [(''AAPL'', Stock_fields 0 ''AAPL'' ''Apple Inc.'' 100 (1 / 50)),
             (''MSFT'', (Stock_fields 0 ''MSFT'' ''Microsoft Corp.'' 200 (3 / 200))
                \<lparr>price_history := [200, 803 / 4], last_update := 2000000,
                  volume_history := [0, 0]\<rparr>)],
          portfolio = portfolio demo_window\<rparr>
   \<and> pending_symbols (portfolio demo_window) = [''AAPL'']
   \<and> update_price 2000000 (3 / 4) 2000000 0 (Stock_fields 0 ''MSFT'' ''Microsoft Corp.'' 200 (3 / 200))
       = Inr (True, (Stock_fields 0 ''MSFT'' ''Microsoft Corp.'' 200 (3 / 200))
                \<lparr>price_history := [200, 803 / 4], last_update := 2000000,
                  volume_history := [0, 0]\<rparr>)"
proof -
  let ?w' = "\<lparr>stocks =
            [(''AAPL'', Stock_fields 0 ''AAPL'' ''Apple Inc.'' 100 (1 / 50)),
             (''MSFT'', (Stock_fields 0 ''MSFT'' ''Microsoft Corp.'' 200 (3 / 200))
                \<lparr>price_history := [200, 803 / 4], last_update := 2000000,
                  volume_history := [0, 0]\<rparr>)],
          portfolio = portfolio demo_window\<rparr>"
  have run: "update_prices (same_readings 2000000 (3 / 4)) (clock_from 2000000) demo_window = Inr ?w'"
    by (simp add: update_prices_def demo_window_def Stock_fields_def place_order_def
        Portfolio_def check_limit_orders_def check_order_def get_current_price_def
        pending_symbols_def same_readings_def update_price_def timedelta_seconds_def
        update_indicators_def Let_def)
  have i0: "0 < length (stocks demo_window)" and i1: "1 < length (stocks demo_window)"
    by (simp_all add: demo_window_def)
  have pend: "pending_symbols (portfolio demo_window) = [''AAPL'']"
    by (simp add: demo_window_def pending_symbols_def place_order_def Portfolio_def Let_def)
  have upd: "update_price 2000000 (3 / 4) 2000000 0
                (Stock_fields 0 ''MSFT'' ''Microsoft Corp.'' 200 (3 / 200))
       = Inr (True, (Stock_fields 0 ''MSFT'' ''Microsoft Corp.'' 200 (3 / 200))
                \<lparr>price_history := [200, 803 / 4], last_update := 2000000,
                  volume_history := [0, 0]\<rparr>)"
    by (simp add: Stock_fields_def update_price_def timedelta_seconds_def
          update_indicators_def Let_def)
  from tick_advances_per_symbol [OF run i0] tick_advances_per_symbol [OF run i1] run pend upd
  show ?thesis by simp
qed

section \<open>Round trip of the saved portfolio\<close>

lemma map_err_roundtrip:
  "\<forall>x \<in> set xs. f (g x) = Inr x \<Longrightarrow> map_err f (map g xs) = Inr xs"
  by (induction xs) (simp_all add: bind_err_def)

lemma transaction_roundtrip:
  "fromisoformat (isoformat (t_time t)) = Some (t_time t) \<Longrightarrow>
   transaction_of_json fromisoformat (transaction_to_json isoformat t) = Inr t"
  by (simp add: transaction_of_json_def transaction_to_json_def bind_err_def jget_def as_time_def)

lemma order_roundtrip:
  "fromisoformat (isoformat (o_time ord)) = Some (o_time ord) \<Longrightarrow>
   order_of_json fromisoformat (order_to_json isoformat ord) = Inr ord"
  by (simp add: order_of_json_def order_to_json_def bind_err_def jget_def as_time_def)

lemma holdings_roundtrip:
  "holdings_of_json (JObj (map (\<lambda>(k, v). (k, JInt v)) hs)) = Inr hs"
proof -
  have "map_err (\<lambda>(k, v). bind_err (as_int v) (\<lambda>n. Inr (k, n)))
          (map (\<lambda>(k, v). (k, JInt v)) hs) = Inr hs"
    by (rule map_err_roundtrip) (auto simp add: bind_err_def)
  then show ?thesis by (simp add: holdings_of_json_def bind_err_def)
qed

text \<open>
  C9. Saving a portfolio and loading the file again gives the same cash, the same
  holdings, the same transaction list and the same list of pending orders, timestamps
  included, whatever the loading portfolio held before. The one thing asked of the
  library is that \<open>fromisoformat\<close> reads back what \<open>isoformat\<close> wrote for the
  timestamps stored in the state.
\<close>

theorem save_load_roundtrip:
  assumes "\<forall>t \<in> set (map t_time (transaction_history s)) \<union> set (map o_time (pending_orders s)).
             fromisoformat (isoformat t) = Some t"
  shows "load_from_file fromisoformat filename (save_to_file isoformat filename s fs) s0 = Inr s"
proof -
  have ts: "map_err (transaction_of_json fromisoformat)
              (map (transaction_to_json isoformat) (transaction_history s))
            = Inr (transaction_history s)"
    using assms by (intro map_err_roundtrip ballI transaction_roundtrip) simp
  have os: "map_err (order_of_json fromisoformat)
              (map (order_to_json isoformat) (pending_orders s))
            = Inr (pending_orders s)"
    using assms by (intro map_err_roundtrip ballI order_roundtrip) simp
  show ?thesis
    by (simp add: load_from_file_def save_to_file_def Let_def bind_err_def jget_def
          holdings_roundtrip ts os)
qed

theorem save_load_roundtrip_witness:
  "save_to_file sample_isoformat ''portfolio.json''
       (snd (place_order 5 ''sell'' ''AAPL'' 1 120 ''limit''
          (snd (buy_stock 1 ''AAPL'' 3 100 (Portfolio 1000))))) Map.empty ''portfolio.json''
     = Some (JObj
         [(''cash'', JNum 700),
          (''holdings'', JObj [(''AAPL'', JInt 3)]),
          (''transaction_history'', JArr
             [JObj [(''type'', JStr ''buy''), (''symbol'', JStr ''AAPL''), (''shares'', JInt 3),
                    (''price'', JNum 100), (''total'', JNum 300),
                    (''time'', JStr ''1970-01-01T00:00:00.000001''),
                    (''order_type'', JStr ''market'')]]),
          (''pending_orders'', JArr
             [JObj [(''type'', JStr ''sell''), (''symbol'', JStr ''AAPL''), (''shares'', JInt 1),
                    (''price'', JNum 120), (''kind'', JStr ''limit''),
                    (''time'', JStr ''1970-01-01T00:00:00.000005''),
                    (''filled'', JInt 0), (''status'', JStr ''pending'')]])])
   \<and> load_from_file sample_fromisoformat ''portfolio.json''
       (save_to_file sample_isoformat ''portfolio.json''
          (snd (place_order 5 ''sell'' ''AAPL'' 1 120 ''limit''
             (snd (buy_stock 1 ''AAPL'' 3 100 (Portfolio 1000))))) Map.empty)
       (Portfolio 100000)
     = Inr (snd (place_order 5 ''sell'' ''AAPL'' 1 120 ''limit''
              (snd (buy_stock 1 ''AAPL'' 3 100 (Portfolio 1000)))))"
proof -
  let ?s = "snd (place_order 5 ''sell'' ''AAPL'' 1 120 ''limit''
              (snd (buy_stock 1 ''AAPL'' 3 100 (Portfolio 1000))))"
  have times: "\<forall>t \<in> set (map t_time (transaction_history ?s)) \<union> set (map o_time (pending_orders ?s)).
                 sample_fromisoformat (sample_isoformat t) = Some t"
    by (simp add: place_order_def buy_stock_def Portfolio_def Let_def
          sample_isoformat_def sample_fromisoformat_def)
  have doc: "save_to_file sample_isoformat ''portfolio.json'' ?s Map.empty ''portfolio.json''
     = Some (JObj
         [(''cash'', JNum 700),
          (''holdings'', JObj [(''AAPL'', JInt 3)]),
          (''transaction_history'', JArr
             [JObj [(''type'', JStr ''buy''), (''symbol'', JStr ''AAPL''), (''shares'', JInt 3),
                    (''price'', JNum 100), (''total'', JNum 300),
                    (''time'', JStr ''1970-01-01T00:00:00.000001''),
                    (''order_type'', JStr ''market'')]]),
          (''pending_orders'', JArr
             [JObj [(''type'', JStr ''sell''), (''symbol'', JStr ''AAPL''), (''shares'', JInt 1),
                    (''price'', JNum 120), (''kind'', JStr ''limit''),
                    (''time'', JStr ''1970-01-01T00:00:00.000005''),
                    (''filled'', JInt 0), (''status'', JStr ''pending'')]])])"
    by (simp add: save_to_file_def place_order_def buy_stock_def Portfolio_def Let_def
          transaction_to_json_def order_to_json_def sample_isoformat_def)
  from save_load_roundtrip [OF times, of "''portfolio.json''" Map.empty "Portfolio 100000"] doc
  show ?thesis by simp
qed

end
